theory Spec2Isabelle
  imports Main "HOL-Library.AList" "HOL-Library.Sublist"
begin

section \<open>The service worker of sw.js: data model\<close>

text \<open>
  The worker of \<^verbatim>\<open>src/sw.js\<close> keeps its responses in the browser's cache storage: a
  collection of named caches, each a store from request URLs to responses. The
  model keeps both as association lists, in creation order, because
  \<^verbatim>\<open>caches.keys()\<close> enumerates the names and \<^verbatim>\<open>caches.match\<close> searches the caches
  in that order.

  A URL is kept in the parsed form that \<^verbatim>\<open>new URL(request.url)\<close> gives: its origin,
  its path and its query string. Strings are byte lists; the source writes the
  separator of the cache names as the non-breaking hyphen U+2011, which is kept
  here as the three bytes of its UTF-8 encoding.
\<close>

record url =
  origin :: string
  pathname :: string
  search :: string

text \<open>
  A response: its status, the values of its \<^verbatim>\<open>Vary\<close> header, and its body.
\<close>

record response =
  status :: nat
  vary :: "string list"
  content :: string

text \<open>
  A request, as the fetch listener reads it: \<^verbatim>\<open>request.method\<close> (here
  \<open>req_method\<close>), the parsed \<^verbatim>\<open>request.url\<close> and \<^verbatim>\<open>request.mode\<close>.
\<close>

record request =
  req_method :: string
  url :: url
  mode :: string

type_synonym cache = "(url \<times> response) list"

type_synonym cache_storage = "(string \<times> cache) list"

text \<open>
  What the worker does to its surroundings is recorded, in order, as a list of
  effects beside the cache storage.
\<close>

datatype effect =
    SkipWaiting
  | WaitUntil
  | WaitUntilSettled
  | ClientsClaim
  | CachesOpen string
  | CachesKeys
  | CachesDelete string
  | CachesMatch url
  | CacheMatch string url
  | CachePut string url response
  | CacheAddAll string "string list"
  | Fetch url

record sw_state =
  storage :: cache_storage
  log :: "effect list"

text \<open>
  The build-time constants: the version tag and the origin the worker is served
  from (\<^verbatim>\<open>location.origin\<close>). The source fixes the version tag to one string; the
  model takes both as parameters, and \<open>VERSION_2025\<close> is the source's value.
\<close>

record sw_env =
  VERSION :: string
  location_origin :: string

definition nb_hyphen :: string where
  "nb_hyphen = [CHR 0xE2, CHR 0x80, CHR 0x91]"

definition VERSION_2025 :: string where
  "VERSION_2025 = ''2025'' @ nb_hyphen @ ''07'' @ nb_hyphen @ ''07'' @ nb_hyphen @ ''v1''"

definition STATIC_CACHE :: "sw_env \<Rightarrow> string" where
  "STATIC_CACHE env = ''static'' @ nb_hyphen @ VERSION env"

definition RUNTIME_CACHE :: "sw_env \<Rightarrow> string" where
  "RUNTIME_CACHE env = ''runtime'' @ nb_hyphen @ VERSION env"

definition PRECACHE_URLS :: "string list" where
  "PRECACHE_URLS =
     [''/'',
      ''/index.html'',
      ''/css/styles.css'',
      ''/js/main.js'',
      ''/js/form-secure.js'',
      ''/assets/hero.webp'',
      ''/assets/mobile.webp'',
      ''/favicon.ico'']"

section \<open>Cache storage primitives\<close>

definition emit :: "effect \<Rightarrow> sw_state \<Rightarrow> sw_state" where
  "emit e s = s\<lparr>log := log s @ [e]\<rparr>"

definition cache_names :: "sw_state \<Rightarrow> string list" where
  "cache_names s = map fst (storage s)"

text \<open>The entries of a named cache; a cache that does not exist has none.\<close>

definition cache_entries :: "string \<Rightarrow> sw_state \<Rightarrow> cache" where
  "cache_entries name s = (case map_of (storage s) name of None \<Rightarrow> [] | Some c \<Rightarrow> c)"

text \<open>\<^verbatim>\<open>caches.open(name)\<close>: the cache is created, empty, when it does not exist.\<close>

definition caches_open :: "string \<Rightarrow> sw_state \<Rightarrow> sw_state" where
  "caches_open name s =
     emit (CachesOpen name)
       (if name \<in> set (cache_names s) then s
        else s\<lparr>storage := storage s @ [(name, [])]\<rparr>)"

text \<open>\<^verbatim>\<open>caches.delete(name)\<close>.\<close>

definition caches_delete :: "string \<Rightarrow> sw_state \<Rightarrow> sw_state" where
  "caches_delete name s =
     emit (CachesDelete name) (s\<lparr>storage := filter (\<lambda>(n, c). n \<noteq> name) (storage s)\<rparr>)"

text \<open>
  \<^verbatim>\<open>cache.put(request, response)\<close> on the cache opened under \<open>name\<close>. The platform
  refuses a request whose URL is not http or https, a response of status 206
  (partial content) and a response whose \<^verbatim>\<open>Vary\<close> header names \<^verbatim>\<open>*\<close>: the promise
  of \<^verbatim>\<open>put\<close> is then rejected and nothing is stored. The source does not await
  that promise, so a refusal changes nothing else. Otherwise the entry of the
  request's URL is removed, if there is one, and the new entry is appended. The
  call is recorded in the log in either case. (\<^verbatim>\<open>put\<close> also refuses a request
  that is not a GET; the fetch listener hands only GET requests to the
  strategies.)
\<close>

definition http_url :: "url \<Rightarrow> bool" where
  "http_url k = (prefix ''http://'' (origin k) \<or> prefix ''https://'' (origin k))"

definition put_refuses :: "response \<Rightarrow> bool" where
  "put_refuses r = (status r = 206 \<or> ''*'' \<in> set (vary r))"

definition put_accepts :: "url \<Rightarrow> response \<Rightarrow> bool" where
  "put_accepts k r = (http_url k \<and> \<not> put_refuses r)"

definition cache_put :: "string \<Rightarrow> url \<Rightarrow> response \<Rightarrow> sw_state \<Rightarrow> sw_state" where
  "cache_put name k r s =
     emit (CachePut name k r)
       (if put_accepts k r
        then s\<lparr>storage :=
                 AList.update name (AList.delete k (cache_entries name s) @ [(k, r)]) (storage s)\<rparr>
        else s)"

section \<open>Activate: the generation sweep\<close>

text \<open>
  \<^verbatim>\<open>
  self.addEventListener('activate', (event) => {
    event.waitUntil(
      caches.keys().then((keys) =>
        Promise.all(keys.map((key) =>
          (key !== STATIC_CACHE && key !== RUNTIME_CACHE) ? caches.delete(key) : null))
      )
    );
    self.clients.claim();
  });
  \<close>
  The body of the listener runs to its end before any promise reaction runs:
  it asks for the cache names, hands the promise of the sweep to
  \<^verbatim>\<open>event.waitUntil\<close>, and calls \<^verbatim>\<open>self.clients.claim()\<close>. The callback given to
  \<^verbatim>\<open>then\<close> runs afterwards, with the names; \<^verbatim>\<open>Promise.all\<close> settles, and with it
  the promise that \<^verbatim>\<open>waitUntil\<close> holds, once every deletion has resolved.
\<close>

definition activate_listener :: "sw_state \<Rightarrow> sw_state" where
  "activate_listener s = emit ClientsClaim (emit WaitUntil (emit CachesKeys s))"

definition sweep_callback :: "sw_env \<Rightarrow> string list \<Rightarrow> sw_state \<Rightarrow> sw_state" where
  "sweep_callback env keys s =
     fold (\<lambda>key s'. if key \<noteq> STATIC_CACHE env \<and> key \<noteq> RUNTIME_CACHE env
                     then caches_delete key s' else s') keys s"

definition activate :: "sw_env \<Rightarrow> sw_state \<Rightarrow> sw_state" where
  "activate env s =
     (let keys = cache_names s;
          s1 = activate_listener s;
          s2 = sweep_callback env keys s1
      in emit WaitUntilSettled s2)"

text \<open>The effects a step has added to the log.\<close>

definition effects_since :: "sw_state \<Rightarrow> sw_state \<Rightarrow> effect list" where
  "effects_since s s' = drop (length (log s)) (log s')"

fun is_delete :: "effect \<Rightarrow> bool" where
  "is_delete (CachesDelete n) = True"
| "is_delete e = False"

definition stale :: "sw_env \<Rightarrow> string list \<Rightarrow> string list" where
  "stale env keys = filter (\<lambda>key. key \<noteq> STATIC_CACHE env \<and> key \<noteq> RUNTIME_CACHE env) keys"

section \<open>Values, promises and the network\<close>

text \<open>
  The values the strategies handle: \<^verbatim>\<open>undefined\<close>, a response, or a promise. A
  promise is kept with the way it settles: fulfilled with a value, rejected, or
  never settled (a fetch that hangs; the source sets no timeout).
\<close>

datatype jsval = Undefined | Resp response | Promise settled
  and settled = Fulfilled jsval | Rejected | Pending

text \<open>JavaScript's truthiness: every object is truthy, a promise included.\<close>

fun truthy :: "jsval \<Rightarrow> bool" where
  "truthy Undefined = False"
| "truthy (Resp r) = True"
| "truthy (Promise p) = True"

text \<open>
  What \<^verbatim>\<open>await v\<close> gives, and how the promise of an async function settles when
  the function returns \<open>v\<close>: a promise is followed to its settlement, any other
  value is the fulfilment.
\<close>

fun resolve :: "jsval \<Rightarrow> settled" and adopt :: "settled \<Rightarrow> settled" where
  "resolve Undefined = Fulfilled Undefined"
| "resolve (Resp r) = Fulfilled (Resp r)"
| "resolve (Promise p) = adopt p"
| "adopt (Fulfilled v) = resolve v"
| "adopt Rejected = Rejected"
| "adopt Pending = Pending"

text \<open>
  The network, as the worker sees it: for a URL, a response (of any status), a
  network error, or no answer at all.
\<close>

datatype fetch_outcome = NetResponse response | NetError | NetHang

type_synonym network = "url \<Rightarrow> fetch_outcome"

text \<open>\<^verbatim>\<open>fetch(request)\<close>: the promise of the network's answer.\<close>

definition fetch :: "network \<Rightarrow> url \<Rightarrow> sw_state \<Rightarrow> jsval \<times> sw_state" where
  "fetch net k s =
     (Promise (case net k of
                 NetResponse r \<Rightarrow> Fulfilled (Resp r)
               | NetError \<Rightarrow> Rejected
               | NetHang \<Rightarrow> Pending),
      emit (Fetch k) s)"

text \<open>
  \<^verbatim>\<open>cache.match(request)\<close> on the cache opened under \<open>name\<close>: a promise, fulfilled
  with the stored response or with \<^verbatim>\<open>undefined\<close>.
\<close>

definition cache_match :: "string \<Rightarrow> url \<Rightarrow> sw_state \<Rightarrow> jsval \<times> sw_state" where
  "cache_match name k s =
     (Promise (Fulfilled (case map_of (cache_entries name s) k of
                            None \<Rightarrow> Undefined
                          | Some r \<Rightarrow> Resp r)),
      emit (CacheMatch name k) s)"

text \<open>\<^verbatim>\<open>caches.match(url)\<close>: the first hit over all caches, in creation order.\<close>

fun first_match :: "url \<Rightarrow> cache_storage \<Rightarrow> jsval" where
  "first_match k [] = Undefined"
| "first_match k ((n, c) # cs) =
     (case map_of c k of Some r \<Rightarrow> Resp r | None \<Rightarrow> first_match k cs)"

definition caches_match :: "url \<Rightarrow> sw_state \<Rightarrow> jsval \<times> sw_state" where
  "caches_match k s = (Promise (Fulfilled (first_match k (storage s))), emit (CachesMatch k) s)"

text \<open>A path of the worker's own origin, as a request URL.\<close>

definition own_url :: "sw_env \<Rightarrow> string \<Rightarrow> url" where
  "own_url env p = \<lparr>origin = location_origin env, pathname = p, search = []\<rparr>"

section \<open>Install: the precache\<close>

text \<open>
  \<^verbatim>\<open>
  self.addEventListener('install', (event) => {
    self.skipWaiting();
    event.waitUntil(
      caches.open(STATIC_CACHE).then((cache) => cache.addAll(PRECACHE_URLS))
    );
  });
  \<close>
  \<^verbatim>\<open>cache.addAll\<close> is the platform's. It rejects at once, before any fetch, when
  a URL is not http or https. It fetches every path, and stores the responses
  only when every fetch has answered with a status from 200 to 299 and a
  response that \<^verbatim>\<open>put\<close> would not refuse; one network error, one other status or
  one refused response rejects its promise and stores nothing.
\<close>

definition ok :: "response \<Rightarrow> bool" where
  "ok r = (200 \<le> status r \<and> status r \<le> 299)"

fun fetch_failed :: "fetch_outcome \<Rightarrow> bool" where
  "fetch_failed (NetResponse r) = (\<not> ok r)"
| "fetch_failed NetError = True"
| "fetch_failed NetHang = False"

fun addAll_rejects :: "fetch_outcome \<Rightarrow> bool" where
  "addAll_rejects (NetResponse r) = (fetch_failed (NetResponse r) \<or> put_refuses r)"
| "addAll_rejects NetError = fetch_failed NetError"
| "addAll_rejects NetHang = fetch_failed NetHang"

definition store_fetched :: "sw_env \<Rightarrow> network \<Rightarrow> string \<Rightarrow> string \<Rightarrow> sw_state \<Rightarrow> sw_state" where
  "store_fetched env net name p s =
     (case net (own_url env p) of
        NetResponse r \<Rightarrow> cache_put name (own_url env p) r s
      | NetError \<Rightarrow> s
      | NetHang \<Rightarrow> s)"

definition cache_addAll ::
  "sw_env \<Rightarrow> network \<Rightarrow> string \<Rightarrow> string list \<Rightarrow> sw_state \<Rightarrow> settled \<times> sw_state" where
  "cache_addAll env net name paths s =
     (let s0 = emit (CacheAddAll name paths) s;
          s1 = fold (\<lambda>p. emit (Fetch (own_url env p))) paths s0;
          outcomes = map (\<lambda>p. net (own_url env p)) paths
      in if list_ex (\<lambda>p. \<not> http_url (own_url env p)) paths then (Rejected, s0)
         else if list_ex addAll_rejects outcomes then (Rejected, s1)
         else if NetHang \<in> set outcomes then (Pending, s1)
         else (Fulfilled Undefined, fold (store_fetched env net name) paths s1))"

text \<open>
  The result of \<open>install\<close> is the settlement of the promise handed to
  \<^verbatim>\<open>event.waitUntil\<close>: the install phase lasts until it settles, and fails when it
  rejects.
\<close>

definition install :: "sw_env \<Rightarrow> network \<Rightarrow> sw_state \<Rightarrow> settled \<times> sw_state" where
  "install env net s =
     (let s1 = emit SkipWaiting s;
          s2 = caches_open (STATIC_CACHE env) s1;
          s3 = emit WaitUntil s2;
          (r, s4) = cache_addAll env net (STATIC_CACHE env) PRECACHE_URLS s3
      in (r, case r of Pending \<Rightarrow> s4 | Fulfilled v \<Rightarrow> emit WaitUntilSettled s4
                     | Rejected \<Rightarrow> emit WaitUntilSettled s4))"

section \<open>The three strategies\<close>

text \<open>
  \<^verbatim>\<open>
  async function cacheFirst(request) {
    const cache = await caches.open(STATIC_CACHE);
    const cached = await cache.match(request);
    return cached || fetch(request);
  }
  \<close>
  The listener hands only GET requests to the strategies; a request is looked up
  and stored under its URL.
\<close>

definition cacheFirst :: "sw_env \<Rightarrow> network \<Rightarrow> request \<Rightarrow> sw_state \<Rightarrow> settled \<times> sw_state" where
  "cacheFirst env net request s =
     (let s1 = caches_open (STATIC_CACHE env) s;
          (m, s2) = cache_match (STATIC_CACHE env) (url request) s1
      in case resolve m of
           Fulfilled cached \<Rightarrow>
             if truthy cached then (resolve cached, s2)
             else (let (f, s3) = fetch net (url request) s2 in (resolve f, s3))
         | Rejected \<Rightarrow> (Rejected, s2)
         | Pending \<Rightarrow> (Pending, s2))"

text \<open>
  \<^verbatim>\<open>
  async function networkFirst(request) {
    const cache = await caches.open(RUNTIME_CACHE);
    try {
      const response = await fetch(request);
      cache.put(request, response.clone());
      return response;
    } catch (err) {
      return cache.match(request) || caches.match('/offline.html');
    }
  }
  \<close>
  In the \<^verbatim>\<open>catch\<close> block the left operand of \<^verbatim>\<open>||\<close> is the promise that
  \<^verbatim>\<open>cache.match\<close> returns, not awaited; the right operand is evaluated only when
  the left one is falsy.
\<close>

definition networkFirst_catch :: "sw_env \<Rightarrow> request \<Rightarrow> sw_state \<Rightarrow> settled \<times> sw_state" where
  "networkFirst_catch env request s =
     (let (m, s1) = cache_match (RUNTIME_CACHE env) (url request) s
      in if truthy m then (resolve m, s1)
         else (let (off, s2) = caches_match (own_url env ''/offline.html'') s1
               in (resolve off, s2)))"

definition networkFirst :: "sw_env \<Rightarrow> network \<Rightarrow> request \<Rightarrow> sw_state \<Rightarrow> settled \<times> sw_state" where
  "networkFirst env net request s =
     (let s1 = caches_open (RUNTIME_CACHE env) s;
          (f, s2) = fetch net (url request) s1
      in case resolve f of
           Fulfilled (Resp r) \<Rightarrow>
             (Fulfilled (Resp r), cache_put (RUNTIME_CACHE env) (url request) r s2)
         | Fulfilled Undefined \<Rightarrow> networkFirst_catch env request s2
         | Fulfilled (Promise p) \<Rightarrow> networkFirst_catch env request s2
         | Rejected \<Rightarrow> networkFirst_catch env request s2
         | Pending \<Rightarrow> (Pending, s2))"

text \<open>
  \<^verbatim>\<open>
  async function staleWhileRevalidate(request) {
    const cache = await caches.open(RUNTIME_CACHE);
    const cached = await cache.match(request);
    const fetchPromise = fetch(request)
      .then((networkResponse) => {
        cache.put(request, networkResponse.clone());
        return networkResponse;
      })
      .catch(() => {});
    return cached || fetchPromise;
  }
  \<close>
  \<open>revalidate\<close> is the chain on the fetch: the \<^verbatim>\<open>then\<close> callback stores the
  response, and the \<^verbatim>\<open>catch\<close> callback turns a rejection into \<^verbatim>\<open>undefined\<close>.
\<close>

definition revalidate :: "sw_env \<Rightarrow> request \<Rightarrow> jsval \<Rightarrow> sw_state \<Rightarrow> jsval \<times> sw_state" where
  "revalidate env request f s =
     (case resolve f of
        Fulfilled (Resp r) \<Rightarrow>
          (Promise (Fulfilled (Resp r)), cache_put (RUNTIME_CACHE env) (url request) r s)
      | Fulfilled Undefined \<Rightarrow> (Promise (Fulfilled Undefined), s)
      | Fulfilled (Promise p) \<Rightarrow> (Promise (Fulfilled Undefined), s)
      | Rejected \<Rightarrow> (Promise (Fulfilled Undefined), s)
      | Pending \<Rightarrow> (Promise Pending, s))"

definition staleWhileRevalidate ::
  "sw_env \<Rightarrow> network \<Rightarrow> request \<Rightarrow> sw_state \<Rightarrow> settled \<times> sw_state" where
  "staleWhileRevalidate env net request s =
     (let s1 = caches_open (RUNTIME_CACHE env) s;
          (m, s2) = cache_match (RUNTIME_CACHE env) (url request) s1
      in case resolve m of
           Fulfilled cached \<Rightarrow>
             (let (f, s3) = fetch net (url request) s2;
                  (fetchPromise, s4) = revalidate env request f s3
              in (if truthy cached then resolve cached else resolve fetchPromise, s4))
         | Rejected \<Rightarrow> (Rejected, s2)
         | Pending \<Rightarrow> (Pending, s2))"

section \<open>The fetch listener\<close>

text \<open>
  \<^verbatim>\<open>
  self.addEventListener('fetch', (event) => {
    const { request } = event;
    const url = new URL(request.url);
    if (request.method !== 'GET') return;
    if (url.origin === location.origin &&
        (url.pathname.startsWith('/assets') || PRECACHE_URLS.includes(url.pathname))) {
      event.respondWith(cacheFirst(request));
      return;
    }
    if (request.mode === 'navigate') {
      event.respondWith(networkFirst(request));
      return;
    }
    event.respondWith(staleWhileRevalidate(request));
  });
  \<close>
  The result is \<open>None\<close> when the listener returns without \<^verbatim>\<open>event.respondWith\<close>
  (the browser then handles the request itself, over the network), and the
  settlement of the promise given to \<^verbatim>\<open>respondWith\<close> otherwise.
\<close>

definition respondWith :: "settled \<times> sw_state \<Rightarrow> settled option \<times> sw_state" where
  "respondWith rs = (Some (fst rs), snd rs)"

definition fetch_listener ::
  "sw_env \<Rightarrow> network \<Rightarrow> request \<Rightarrow> sw_state \<Rightarrow> settled option \<times> sw_state" where
  "fetch_listener env net request s =
     (if req_method request \<noteq> ''GET'' then (None, s)
      else if origin (url request) = location_origin env
              \<and> (prefix ''/assets'' (pathname (url request))
                   \<or> pathname (url request) \<in> set PRECACHE_URLS)
        then respondWith (cacheFirst env net request s)
      else if mode request = ''navigate''
        then respondWith (networkFirst env net request s)
      else respondWith (staleWhileRevalidate env net request s))"

section \<open>The push listener\<close>

text \<open>
  \<^verbatim>\<open>
  self.addEventListener('push', (event) => {
    const data = event.data ? event.data.json() : {};
    const title = data.title || 'Gabriel Remote Assistants';
    const options = {
      body: data.body || 'New update available.',
      icon: '/assets/icon-192.png',
      badge: '/assets/badge.png',
      data: data.url || '/',
    };
    event.waitUntil(self.registration.showNotification(title, options));
  });
  \<close>
  \<^verbatim>\<open>event.data\<close> is \<^verbatim>\<open>null\<close> or the message; \<^verbatim>\<open>json()\<close> parses its text and throws a
  \<^verbatim>\<open>SyntaxError\<close> when the text is not JSON. A parsed value is kept as a JSON
  tree, an object with one entry for each key; numbers are kept as integers,
  since only their being zero matters here.
\<close>

datatype json =
    JNull
  | JBool bool
  | JNum int
  | JStr string
  | JArr "json list"
  | JObj "(string \<times> json) list"

datatype js_error = SyntaxError | TypeError

datatype push_message = NotJSON | ParsesTo json

fun json_of :: "push_message \<Rightarrow> js_error + json" where
  "json_of NotJSON = Inl SyntaxError"
| "json_of (ParsesTo j) = Inr j"

text \<open>
  Reading one of the properties \<^verbatim>\<open>title\<close>, \<^verbatim>\<open>body\<close>, \<^verbatim>\<open>url\<close>: on \<^verbatim>\<open>null\<close> a
  \<^verbatim>\<open>TypeError\<close>, on an object its entry or \<^verbatim>\<open>undefined\<close> (\<open>None\<close>), on any other
  value \<^verbatim>\<open>undefined\<close>.
\<close>

fun get_prop :: "json \<Rightarrow> string \<Rightarrow> js_error + json option" where
  "get_prop JNull k = Inl TypeError"
| "get_prop (JObj kvs) k = Inr (map_of kvs k)"
| "get_prop j k = Inr None"

fun json_truthy :: "json \<Rightarrow> bool" where
  "json_truthy JNull = False"
| "json_truthy (JBool b) = b"
| "json_truthy (JNum n) = (n \<noteq> 0)"
| "json_truthy (JStr s) = (s \<noteq> [])"
| "json_truthy (JArr xs) = True"
| "json_truthy (JObj kvs) = True"

text \<open>\<^verbatim>\<open>v || d\<close> for a property \<open>v\<close> that may be \<^verbatim>\<open>undefined\<close>.\<close>

fun or_default :: "json option \<Rightarrow> json \<Rightarrow> json" where
  "or_default None d = d"
| "or_default (Some v) d = (if json_truthy v then v else d)"

record notification_options =
  body :: json
  icon :: string
  badge :: string
  data :: json

text \<open>
  The result is the error the listener throws, or the title and the options it
  gives to \<^verbatim>\<open>showNotification\<close>, whose promise it hands to \<^verbatim>\<open>event.waitUntil\<close>.
\<close>

definition push_listener :: "push_message option \<Rightarrow> js_error + (json \<times> notification_options)" where
  "push_listener event_data =
     (case (case event_data of None \<Rightarrow> Inr (JObj []) | Some d \<Rightarrow> json_of d) of
        Inl e \<Rightarrow> Inl e
      | Inr parsed \<Rightarrow>
          (case get_prop parsed ''title'' of
             Inl e \<Rightarrow> Inl e
           | Inr t \<Rightarrow>
               (case get_prop parsed ''body'' of
                  Inl e \<Rightarrow> Inl e
                | Inr b \<Rightarrow>
                    (case get_prop parsed ''url'' of
                       Inl e \<Rightarrow> Inl e
                     | Inr u \<Rightarrow>
                         Inr (or_default t (JStr ''Gabriel Remote Assistants''),
                              \<lparr>body = or_default b (JStr ''New update available.''),
                               icon = ''/assets/icon-192.png'',
                               badge = ''/assets/badge.png'',
                               data = or_default u (JStr ''/'')\<rparr>)))))"

section \<open>The routing classes of the specification\<close>

text \<open>
  The three classes in the specification's words (section 4.4), for a GET
  request: STATIC for a request to the app's own origin whose path starts with the
  static-asset prefix or is in the precache manifest; otherwise NAVIGATION for a
  page navigation; otherwise DYNAMIC. Each class has its strategy (section 4.5).
\<close>

datatype route = STATIC | NAVIGATION | DYNAMIC

definition classify_spec :: "sw_env \<Rightarrow> request \<Rightarrow> route" where
  "classify_spec env request =
     (if origin (url request) = location_origin env
         \<and> (prefix ''/assets'' (pathname (url request))
              \<or> pathname (url request) \<in> set PRECACHE_URLS)
      then STATIC
      else if mode request = ''navigate'' then NAVIGATION
      else DYNAMIC)"

fun strategy_spec ::
  "route \<Rightarrow> sw_env \<Rightarrow> network \<Rightarrow> request \<Rightarrow> sw_state \<Rightarrow> settled \<times> sw_state" where
  "strategy_spec STATIC = cacheFirst"
| "strategy_spec NAVIGATION = networkFirst"
| "strategy_spec DYNAMIC = staleWhileRevalidate"

section \<open>Reading the log\<close>

fun is_fetch :: "effect \<Rightarrow> bool" where
  "is_fetch (Fetch k) = True"
| "is_fetch e = False"

fun is_put :: "effect \<Rightarrow> bool" where
  "is_put (CachePut n k r) = True"
| "is_put e = False"

section \<open>Example inputs\<close>

definition example_env :: sw_env where
  "example_env = \<lparr>VERSION = VERSION_2025, location_origin = ''https://app.example''\<rparr>"

definition empty_state :: sw_state where
  "empty_state = \<lparr>storage = [], log = []\<rparr>"

definition offline_net :: network where
  "offline_net k = NetError"

text \<open>A page navigation to a path outside the manifest, and one to a precached path.\<close>

definition about_navigation :: request where
  "about_navigation =
     \<lparr>req_method = ''GET'', url = own_url example_env ''/about'', mode = ''navigate''\<rparr>"

definition index_navigation :: request where
  "index_navigation =
     \<lparr>req_method = ''GET'', url = own_url example_env ''/index.html'', mode = ''navigate''\<rparr>"

text \<open>A GET to another origin, and the form module's POST.\<close>

definition api_url :: url where
  "api_url = \<lparr>origin = ''https://api.example'', pathname = ''/status'', search = []\<rparr>"

definition api_request :: request where
  "api_request = \<lparr>req_method = ''GET'', url = api_url, mode = ''cors''\<rparr>"

definition form_post :: request where
  "form_post =
     \<lparr>req_method = ''POST'', url = own_url example_env ''/api/submit'', mode = ''cors''\<rparr>"

definition offline_page :: response where
  "offline_page = \<lparr>status = 200, vary = [], content = ''You are offline''\<rparr>"

definition not_found :: response where
  "not_found = \<lparr>status = 404, vary = [], content = ''Not Found''\<rparr>"

definition stale_copy :: response where
  "stale_copy = \<lparr>status = 200, vary = [], content = ''yesterday''\<rparr>"

text \<open>
  A storage whose static cache holds an offline page, as it would after an
  install whose manifest listed one, and whose runtime cache is empty.
\<close>

definition offline_ready :: sw_state where
  "offline_ready =
     \<lparr>storage = [(STATIC_CACHE example_env, [(own_url example_env ''/offline.html'', offline_page)]),
                 (RUNTIME_CACHE example_env, [])],
      log = []\<rparr>"

text \<open>A storage with the caches of an older version beside the current ones.\<close>

definition old_env :: sw_env where
  "old_env = \<lparr>VERSION = ''v0'', location_origin = ''https://app.example''\<rparr>"

definition upgraded :: sw_state where
  "upgraded =
     \<lparr>storage = [(STATIC_CACHE old_env, []), (RUNTIME_CACHE old_env, []),
                 (STATIC_CACHE example_env, []), (RUNTIME_CACHE example_env, [])],
      log = []\<rparr>"

text \<open>A storage whose runtime cache holds a copy of the API answer.\<close>

definition warm :: sw_state where
  "warm =
     \<lparr>storage = [(STATIC_CACHE example_env, []), (RUNTIME_CACHE example_env, [(api_url, stale_copy)])],
      log = []\<rparr>"

text \<open>A network on which the favicon cannot be fetched and every other path can.\<close>

definition no_favicon_net :: network where
  "no_favicon_net k =
     (if pathname k = ''/favicon.ico'' then NetError
      else NetResponse \<lparr>status = 200, vary = [], content = pathname k\<rparr>)"

definition not_found_net :: network where
  "not_found_net k = NetResponse not_found"

text \<open>
  The answer to a range request, which \<^verbatim>\<open>put\<close> refuses, and a network that gives
  it.
\<close>

definition partial_content :: response where
  "partial_content = \<lparr>status = 206, vary = [], content = ''bytes 0-99''\<rparr>"

definition partial_net :: network where
  "partial_net k = NetResponse partial_content"

text \<open>
  The storage an older version has left, and a network on which every path can
  be fetched: the install of the current version over it opens the static cache
  of the current version, and no runtime cache.
\<close>

definition old_deployment :: sw_state where
  "old_deployment =
     \<lparr>storage = [(STATIC_CACHE old_env, []), (RUNTIME_CACHE old_env, [])], log = []\<rparr>"

definition all_ok_net :: network where
  "all_ok_net k = NetResponse \<lparr>status = 200, vary = [], content = pathname k\<rparr>"


section \<open>Facts about the primitives\<close>

lemma STATIC_neq_RUNTIME: "STATIC_CACHE env \<noteq> RUNTIME_CACHE env"
  by (simp add: STATIC_CACHE_def RUNTIME_CACHE_def)

lemma storage_emit: "storage (emit e s) = storage s"
  by (simp add: emit_def)

lemma log_emit: "log (emit e s) = log s @ [e]"
  by (simp add: emit_def)

lemma sweep_callback_storage:
  "storage (sweep_callback env keys s) =
     filter (\<lambda>(n, c). n \<notin> set (stale env keys)) (storage s)"
  unfolding sweep_callback_def
proof (induction keys arbitrary: s)
  case Nil
  show ?case by (simp add: stale_def)
next
  case (Cons key keys)
  have "filter (\<lambda>(n, c). n \<notin> set (stale env keys)) (filter (\<lambda>(n, c). n \<noteq> key) (storage s))
      = filter (\<lambda>(n, c). n \<notin> set (stale env (key # keys))) (storage s)"
    if "key \<noteq> STATIC_CACHE env" "key \<noteq> RUNTIME_CACHE env"
    using that by (auto simp: stale_def intro: filter_cong)
  then show ?case
    by (simp add: Cons.IH caches_delete_def storage_emit) (simp add: stale_def)
qed

lemma sweep_callback_log:
  "log (sweep_callback env keys s) = log s @ map CachesDelete (stale env keys)"
  unfolding sweep_callback_def
proof (induction keys arbitrary: s)
  case Nil
  show ?case by (simp add: stale_def)
next
  case (Cons key keys)
  show ?case
    by (simp add: Cons.IH stale_def caches_delete_def log_emit)
qed

lemma activate_storage:
  "storage (activate env s) =
     filter (\<lambda>(n, c). n = STATIC_CACHE env \<or> n = RUNTIME_CACHE env) (storage s)"
proof -
  have "storage (activate env s) =
          filter (\<lambda>(n, c). n \<notin> set (stale env (cache_names s))) (storage s)"
    by (simp add: activate_def Let_def storage_emit sweep_callback_storage activate_listener_def)
  also have "\<dots> = filter (\<lambda>(n, c). n = STATIC_CACHE env \<or> n = RUNTIME_CACHE env) (storage s)"
    by (rule filter_cong) (force simp: stale_def cache_names_def)+
  finally show ?thesis .
qed

lemma activate_log:
  "log (activate env s) =
     log s @ [CachesKeys, WaitUntil, ClientsClaim]
       @ map CachesDelete (stale env (cache_names s)) @ [WaitUntilSettled]"
  by (simp add: activate_def Let_def log_emit sweep_callback_log activate_listener_def)

lemma effects_since_activate:
  "effects_since s (activate env s) =
     [CachesKeys, WaitUntil, ClientsClaim]
       @ map CachesDelete (stale env (cache_names s)) @ [WaitUntilSettled]"
  by (simp add: effects_since_def activate_log)

lemma cache_names_activate:
  "cache_names (activate env s) =
     filter (\<lambda>n. n = STATIC_CACHE env \<or> n = RUNTIME_CACHE env) (cache_names s)"
  by (simp add: cache_names_def activate_storage filter_map comp_def split_def)

lemma stale_after_activate: "stale env (cache_names (activate env s)) = []"
  by (auto simp: cache_names_activate stale_def filter_empty_conv)

section \<open>Facts about the strategies and install\<close>

lemma log_caches_open: "log (caches_open n s) = log s @ [CachesOpen n]"
  by (simp add: caches_open_def log_emit)

lemma log_cache_put: "log (cache_put n k r s) = log s @ [CachePut n k r]"
  by (simp add: cache_put_def log_emit)

lemma cache_entries_emit: "cache_entries n (emit e s) = cache_entries n s"
  by (simp add: cache_entries_def storage_emit)

lemma cache_entries_caches_open: "cache_entries n (caches_open m s) = cache_entries n s"
  by (auto simp: cache_entries_def caches_open_def storage_emit cache_names_def map_add_def
      split: option.splits dest: map_of_SomeD intro: rev_image_eqI)

lemma map_of_put_entry:
  "map_of (AList.delete k al @ [(k, r)]) k' = (if k' = k then Some r else map_of al k')"
  by (simp add: map_add_def delete_conv' split: option.splits)

lemma cache_entries_cache_put:
  "cache_entries n (cache_put m k r s) =
     (if n = m \<and> put_accepts k r then AList.delete k (cache_entries m s) @ [(k, r)]
      else cache_entries n s)"
  by (simp add: cache_entries_def cache_put_def storage_emit update_conv')

lemma cache_names_emit: "cache_names (emit e s) = cache_names s"
  by (simp add: cache_names_def storage_emit)

lemma cache_names_cache_put:
  "m \<in> set (cache_names s) \<Longrightarrow> cache_names (cache_put m k r s) = cache_names s"
  by (simp add: cache_names_def cache_put_def storage_emit update_keys)

lemma cache_names_caches_open:
  "cache_names (caches_open m s) =
     (if m \<in> set (cache_names s) then cache_names s else cache_names s @ [m])"
  by (simp add: cache_names_def caches_open_def storage_emit)

lemmas prim_simps = log_caches_open log_cache_put cache_entries_emit cache_entries_caches_open
  cache_entries_cache_put log_emit storage_emit

lemma swr_result_hit:
  "map_of (cache_entries (RUNTIME_CACHE env) s) (url request) = Some c
   \<Longrightarrow> fst (staleWhileRevalidate env net request s) = Fulfilled (Resp c)"
  by (simp add: staleWhileRevalidate_def Let_def split_def cache_match_def prim_simps)

lemma swr_result_miss:
  "map_of (cache_entries (RUNTIME_CACHE env) s) (url request) = None
   \<Longrightarrow> fst (staleWhileRevalidate env net request s) =
        (case net (url request) of
           NetResponse r \<Rightarrow> Fulfilled (Resp r)
         | NetError \<Rightarrow> Fulfilled Undefined
         | NetHang \<Rightarrow> Pending)"
  by (simp add: staleWhileRevalidate_def Let_def split_def cache_match_def prim_simps
      revalidate_def fetch_def split: fetch_outcome.splits)

lemma swr_log:
  "log (snd (staleWhileRevalidate env net request s)) =
     log s @ [CachesOpen (RUNTIME_CACHE env), CacheMatch (RUNTIME_CACHE env) (url request),
              Fetch (url request)]
       @ (case net (url request) of
            NetResponse r \<Rightarrow> [CachePut (RUNTIME_CACHE env) (url request) r]
          | NetError \<Rightarrow> []
          | NetHang \<Rightarrow> [])"
  by (simp add: staleWhileRevalidate_def Let_def split_def cache_match_def prim_simps
      revalidate_def fetch_def split: fetch_outcome.splits option.splits)

lemma swr_not_rejected: "fst (staleWhileRevalidate env net request s) \<noteq> Rejected"
  by (simp add: staleWhileRevalidate_def Let_def split_def cache_match_def prim_simps
      revalidate_def fetch_def split: fetch_outcome.splits option.splits)


lemma cacheFirst_log:
  "log (snd (cacheFirst env net request s)) =
     log s @ [CachesOpen (STATIC_CACHE env), CacheMatch (STATIC_CACHE env) (url request)]
       @ (case map_of (cache_entries (STATIC_CACHE env) s) (url request) of
            None \<Rightarrow> [Fetch (url request)] | Some c \<Rightarrow> [])"
  by (simp add: cacheFirst_def Let_def split_def cache_match_def prim_simps fetch_def
      split: option.splits)

lemma cacheFirst_entries:
  "cache_entries n (snd (cacheFirst env net request s)) = cache_entries n s"
  by (simp add: cacheFirst_def Let_def split_def cache_match_def prim_simps fetch_def
      split: option.splits)

lemma networkFirst_catch_log:
  "log (snd (networkFirst_catch env request s)) =
     log s @ [CacheMatch (RUNTIME_CACHE env) (url request)]"
  by (simp add: networkFirst_catch_def Let_def split_def cache_match_def prim_simps)

lemma networkFirst_catch_entries:
  "cache_entries n (snd (networkFirst_catch env request s)) = cache_entries n s"
  by (simp add: networkFirst_catch_def Let_def split_def cache_match_def prim_simps)

lemma networkFirst_catch_result:
  "fst (networkFirst_catch env request s) =
     Fulfilled (case map_of (cache_entries (RUNTIME_CACHE env) s) (url request) of
                  None \<Rightarrow> Undefined | Some r \<Rightarrow> Resp r)"
  by (simp add: networkFirst_catch_def Let_def split_def cache_match_def prim_simps
      split: option.splits)

lemma networkFirst_log:
  "log (snd (networkFirst env net request s)) =
     log s @ [CachesOpen (RUNTIME_CACHE env), Fetch (url request)]
       @ (case net (url request) of
            NetResponse r \<Rightarrow> [CachePut (RUNTIME_CACHE env) (url request) r]
          | NetError \<Rightarrow> [CacheMatch (RUNTIME_CACHE env) (url request)]
          | NetHang \<Rightarrow> [])"
  by (simp add: networkFirst_def Let_def split_def fetch_def prim_simps networkFirst_catch_log
      split: fetch_outcome.splits)

lemma networkFirst_entries:
  "cache_entries n (snd (networkFirst env net request s)) =
     (case net (url request) of
        NetResponse r \<Rightarrow>
          if n = RUNTIME_CACHE env \<and> put_accepts (url request) r
          then AList.delete (url request) (cache_entries n s) @ [(url request, r)]
          else cache_entries n s
      | NetError \<Rightarrow> cache_entries n s
      | NetHang \<Rightarrow> cache_entries n s)"
  by (simp add: networkFirst_def Let_def split_def fetch_def prim_simps networkFirst_catch_entries
      split: fetch_outcome.splits)

lemma networkFirst_result:
  "fst (networkFirst env net request s) =
     (case net (url request) of
        NetResponse r \<Rightarrow> Fulfilled (Resp r)
      | NetError \<Rightarrow>
          Fulfilled (case map_of (cache_entries (RUNTIME_CACHE env) s) (url request) of
                       None \<Rightarrow> Undefined | Some r \<Rightarrow> Resp r)
      | NetHang \<Rightarrow> Pending)"
  by (simp add: networkFirst_def Let_def split_def fetch_def prim_simps networkFirst_catch_result
      split: fetch_outcome.splits)

lemma swr_entries:
  "cache_entries n (snd (staleWhileRevalidate env net request s)) =
     (case net (url request) of
        NetResponse r \<Rightarrow>
          if n = RUNTIME_CACHE env \<and> put_accepts (url request) r
          then AList.delete (url request) (cache_entries n s) @ [(url request, r)]
          else cache_entries n s
      | NetError \<Rightarrow> cache_entries n s
      | NetHang \<Rightarrow> cache_entries n s)"
  by (simp add: staleWhileRevalidate_def Let_def split_def cache_match_def prim_simps
      revalidate_def fetch_def split: fetch_outcome.splits option.splits)

lemma fold_emit_log: "log (fold (\<lambda>p. emit (f p)) ps s) = log s @ map f ps"
  by (induction ps arbitrary: s) (simp_all add: log_emit)

lemma fold_emit_storage: "storage (fold (\<lambda>p. emit (f p)) ps s) = storage s"
  by (induction ps arbitrary: s) (simp_all add: storage_emit)

lemma fold_emit_entries: "cache_entries n (fold (\<lambda>p. emit (f p)) ps s) = cache_entries n s"
  by (simp add: cache_entries_def fold_emit_storage)

lemma store_fetched_entries:
  "map_of (cache_entries name (store_fetched env net name p s)) k =
     (case net (own_url env p) of
        NetResponse r \<Rightarrow>
          if k = own_url env p \<and> put_accepts k r then Some r
          else map_of (cache_entries name s) k
      | NetError \<Rightarrow> map_of (cache_entries name s) k
      | NetHang \<Rightarrow> map_of (cache_entries name s) k)"
  by (auto simp del: map_of_append simp add: store_fetched_def prim_simps map_of_put_entry
      split: fetch_outcome.splits)

lemma fold_store_fetched_entries:
  "map_of (cache_entries name (fold (store_fetched env net name) ps s)) k =
     (case net k of
        NetResponse r \<Rightarrow>
          if k \<in> own_url env ` set ps \<and> put_accepts k r then Some r
          else map_of (cache_entries name s) k
      | NetError \<Rightarrow> map_of (cache_entries name s) k
      | NetHang \<Rightarrow> map_of (cache_entries name s) k)"
proof (induction ps arbitrary: s)
  case Nil
  show ?case by (simp split: fetch_outcome.splits)
next
  case (Cons p ps)
  show ?case
    by (auto simp: Cons.IH store_fetched_entries split: fetch_outcome.splits)
qed

lemma fold_store_fetched_log:
  "log (fold (store_fetched env net name) ps s) =
     log s @ concat (map (\<lambda>p. case net (own_url env p) of
                                NetResponse r \<Rightarrow> [CachePut name (own_url env p) r]
                              | NetError \<Rightarrow> []
                              | NetHang \<Rightarrow> []) ps)"
  by (induction ps arbitrary: s)
     (simp_all add: store_fetched_def prim_simps split: fetch_outcome.splits)

lemma fold_store_fetched_names:
  "name \<in> set (cache_names s)
   \<Longrightarrow> cache_names (fold (store_fetched env net name) ps s) = cache_names s"
  by (induction ps arbitrary: s)
     (simp_all add: store_fetched_def cache_names_cache_put split: fetch_outcome.splits)

lemma fold_emit_names: "cache_names (fold (\<lambda>p. emit (f p)) ps s) = cache_names s"
  by (simp add: cache_names_def fold_emit_storage)

lemma fetch_failed_addAll_rejects: "fetch_failed out \<Longrightarrow> addAll_rejects out"
  by (cases out) simp_all

lemma install_result:
  "fst (install env net s) =
     (if list_ex (\<lambda>p. \<not> http_url (own_url env p)) PRECACHE_URLS
         \<or> list_ex addAll_rejects (map (\<lambda>p. net (own_url env p)) PRECACHE_URLS)
      then Rejected
      else if NetHang \<in> set (map (\<lambda>p. net (own_url env p)) PRECACHE_URLS) then Pending
      else Fulfilled Undefined)"
  by (simp add: install_def cache_addAll_def Let_def split_def)

lemma install_rejected_entries:
  "fst (install env net s) = Rejected
   \<Longrightarrow> cache_entries n (snd (install env net s)) = cache_entries n s"
  by (simp add: install_def cache_addAll_def Let_def split_def prim_simps fold_emit_entries
      split: if_splits)

lemma install_fulfilled_entries:
  "fst (install env net s) = Fulfilled v \<Longrightarrow> p \<in> set PRECACHE_URLS
   \<Longrightarrow> \<exists>r. net (own_url env p) = NetResponse r \<and> ok r
          \<and> map_of (cache_entries (STATIC_CACHE env) (snd (install env net s))) (own_url env p)
              = Some r"
proof -
  assume f: "fst (install env net s) = Fulfilled v" and p: "p \<in> set PRECACHE_URLS"
  from f have http: "\<not> list_ex (\<lambda>p. \<not> http_url (own_url env p)) PRECACHE_URLS"
    and nofail: "\<not> list_ex addAll_rejects (map (\<lambda>p. net (own_url env p)) PRECACHE_URLS)"
    and nohang: "NetHang \<notin> set (map (\<lambda>p. net (own_url env p)) PRECACHE_URLS)"
    by (auto simp: install_result split: if_splits)
  from nofail p have "\<not> addAll_rejects (net (own_url env p))"
    by (auto simp: list_ex_iff)
  moreover from nohang p have "net (own_url env p) \<noteq> NetHang"
    by force
  ultimately obtain r where r: "net (own_url env p) = NetResponse r" "ok r" "\<not> put_refuses r"
    by (cases "net (own_url env p)") auto
  from http p have "http_url (own_url env p)"
    by (auto simp: list_ex_iff)
  with r have acc: "put_accepts (own_url env p) r"
    by (simp add: put_accepts_def)
  from http nofail nohang have
    "snd (install env net s) =
       emit WaitUntilSettled
         (fold (store_fetched env net (STATIC_CACHE env)) PRECACHE_URLS
           (fold (\<lambda>p. emit (Fetch (own_url env p))) PRECACHE_URLS
             (emit (CacheAddAll (STATIC_CACHE env) PRECACHE_URLS)
               (emit WaitUntil (caches_open (STATIC_CACHE env) (emit SkipWaiting s))))))"
    by (simp add: install_def cache_addAll_def Let_def split_def)
  then have "map_of (cache_entries (STATIC_CACHE env) (snd (install env net s))) (own_url env p)
      = Some r"
    using r acc p by (simp add: cache_entries_emit fold_store_fetched_entries)
  with r show ?thesis by blast
qed

lemma cache_names_install:
  "cache_names (snd (install env net s)) =
     (if STATIC_CACHE env \<in> set (cache_names s) then cache_names s
      else cache_names s @ [STATIC_CACHE env])"
  by (simp add: install_def cache_addAll_def Let_def split_def cache_names_emit
      cache_names_caches_open fold_emit_names fold_store_fetched_names
      split: settled.splits)

lemma install_log_start:
  "take 3 (effects_since s (snd (install env net s))) =
     [SkipWaiting, CachesOpen (STATIC_CACHE env), WaitUntil]"
  by (simp add: effects_since_def install_def cache_addAll_def Let_def split_def prim_simps
      fold_emit_log fold_store_fetched_log)

lemma install_log_end:
  "fst (install env net s) \<noteq> Pending
   \<Longrightarrow> last (effects_since s (snd (install env net s))) = WaitUntilSettled"
  by (simp add: effects_since_def install_def cache_addAll_def Let_def split_def prim_simps
      fold_emit_log fold_store_fetched_log split: if_splits)

lemma fetch_listener_entries_static:
  "cache_entries (STATIC_CACHE env) (snd (fetch_listener env net request s))
     = cache_entries (STATIC_CACHE env) s"
  by (simp add: fetch_listener_def respondWith_def cacheFirst_entries networkFirst_entries
      swr_entries STATIC_neq_RUNTIME split: fetch_outcome.splits)

section \<open>Unfolding the examples\<close>

lemmas example_defs = example_env_def empty_state_def offline_net_def about_navigation_def
  index_navigation_def api_url_def api_request_def form_post_def offline_page_def not_found_def
  stale_copy_def offline_ready_def old_env_def upgraded_def warm_def no_favicon_net_def
  not_found_net_def partial_content_def partial_net_def old_deployment_def all_ok_net_def

lemmas eval_defs = STATIC_CACHE_def RUNTIME_CACHE_def VERSION_2025_def nb_hyphen_def
  PRECACHE_URLS_def own_url_def emit_def cache_names_def cache_entries_def caches_open_def
  caches_delete_def cache_put_def fetch_def cache_match_def caches_match_def
  http_url_def put_refuses_def put_accepts_def

section \<open>Claims\<close>

subsection \<open>C1: the offline fallback of networkFirst\<close>

text \<open>
  C1 says that a navigation whose fetch fails with a network error, and of which
  the runtime cache holds no copy, is answered with the precached page
  \<^verbatim>\<open>/offline.html\<close>, a member of the precache manifest. The code does otherwise.
  Evaluated on such a navigation, with a storage whose static cache does hold an
  offline page: the promise given to \<^verbatim>\<open>respondWith\<close> is fulfilled with
  \<^verbatim>\<open>undefined\<close>; the worker has opened the runtime cache, fetched, and looked the
  request up in the runtime cache, and has never asked \<^verbatim>\<open>caches.match\<close> for the
  offline page, which was there to be found; and \<^verbatim>\<open>/offline.html\<close> is not in
  \<open>PRECACHE_URLS\<close>.
\<close>

theorem networkFirst_offline_fallback_unreached:
  "fetch_listener example_env offline_net about_navigation offline_ready =
     (Some (Fulfilled Undefined),
      offline_ready\<lparr>log := [CachesOpen (RUNTIME_CACHE example_env), Fetch (url about_navigation),
                            CacheMatch (RUNTIME_CACHE example_env) (url about_navigation)]\<rparr>)
   \<and> first_match (own_url example_env ''/offline.html'') (storage offline_ready) = Resp offline_page
   \<and> ''/offline.html'' \<notin> set PRECACHE_URLS"
  by (simp add: fetch_listener_def respondWith_def networkFirst_def networkFirst_catch_def
      Let_def example_defs eval_defs)

subsection \<open>C2: the push listener and its defaults\<close>

text \<open>
  C2 as stated fails for a payload that is not JSON: \<^verbatim>\<open>event.data.json()\<close> throws,
  nothing in the listener catches it, and no notification is shown.
\<close>

theorem push_malformed_counterexample:
  "push_listener (Some NotJSON) = Inl SyntaxError"
  by (simp add: push_listener_def)

text \<open>
  C2, amended. For a push event without payload the listener shows a notification
  with the default title, the default body and the target URL \<^verbatim>\<open>/\<close>. For a payload
  that parses to a JSON object it shows a notification with the object's title,
  body and url, each replaced by its default when it is missing or falsy. For a
  payload that is not JSON the listener throws a \<^verbatim>\<open>SyntaxError\<close> and shows nothing.
\<close>

theorem push_listener_defaults:
  "push_listener None =
     Inr (JStr ''Gabriel Remote Assistants'',
          \<lparr>body = JStr ''New update available.'', icon = ''/assets/icon-192.png'',
           badge = ''/assets/badge.png'', data = JStr ''/''\<rparr>)
   \<and> push_listener (Some (ParsesTo (JObj kvs))) =
     Inr (or_default (map_of kvs ''title'') (JStr ''Gabriel Remote Assistants''),
          \<lparr>body = or_default (map_of kvs ''body'') (JStr ''New update available.''),
           icon = ''/assets/icon-192.png'', badge = ''/assets/badge.png'',
           data = or_default (map_of kvs ''url'') (JStr ''/'')\<rparr>)
   \<and> push_listener (Some NotJSON) = Inl SyntaxError"
  by (simp add: push_listener_def)

text \<open>
  C2 at the payload \<^verbatim>\<open>{}\<close>, and at a payload with a title and an empty url.
\<close>

theorem push_listener_defaults_witness:
  "push_listener (Some (ParsesTo (JObj []))) =
     Inr (JStr ''Gabriel Remote Assistants'',
          \<lparr>body = JStr ''New update available.'', icon = ''/assets/icon-192.png'',
           badge = ''/assets/badge.png'', data = JStr ''/''\<rparr>)
   \<and> push_listener (Some (ParsesTo (JObj [(''title'', JStr ''Hi''), (''url'', JStr [])]))) =
     Inr (JStr ''Hi'',
          \<lparr>body = JStr ''New update available.'', icon = ''/assets/icon-192.png'',
           badge = ''/assets/badge.png'', data = JStr ''/''\<rparr>)"
  using push_listener_defaults [of "[]"]
    push_listener_defaults [of "[(''title'', JStr ''Hi''), (''url'', JStr [])]"]
  by simp

subsection \<open>C3: the order of sweep and claim in activate\<close>

text \<open>
  C3 as stated fails: with the caches of an older version in the storage,
  \<^verbatim>\<open>clients.claim()\<close> is called before either of them is deleted, and when the
  body of the listener has run, claim included, every cache is still there.
\<close>

theorem claim_before_sweep_counterexample:
  "effects_since upgraded (activate example_env upgraded) =
     [CachesKeys, WaitUntil, ClientsClaim,
      CachesDelete (STATIC_CACHE old_env), CachesDelete (RUNTIME_CACHE old_env),
      WaitUntilSettled]
   \<and> cache_names (activate_listener upgraded) = cache_names upgraded"
  by (simp add: effects_since_activate stale_def activate_listener_def example_defs eval_defs)

text \<open>
  C3, amended. The activate listener hands the sweep to \<^verbatim>\<open>event.waitUntil\<close>, whose
  promise settles only after the deletion of every stale cache, so the activation
  is held until all deletions are done; \<^verbatim>\<open>clients.claim()\<close> is called by the body
  of the listener, before the first deletion is issued and with the storage as
  it was.
\<close>

theorem activate_order:
  "effects_since s (activate env s) =
     [CachesKeys, WaitUntil, ClientsClaim]
       @ map CachesDelete
           (filter (\<lambda>n. n \<noteq> STATIC_CACHE env \<and> n \<noteq> RUNTIME_CACHE env) (cache_names s))
       @ [WaitUntilSettled]
   \<and> storage (activate_listener s) = storage s"
  by (simp add: effects_since_activate stale_def activate_listener_def storage_emit)

text \<open>C3 at an empty storage: nothing to delete, and the same order.\<close>

theorem activate_order_witness:
  "effects_since empty_state (activate example_env empty_state) =
     [CachesKeys, WaitUntil, ClientsClaim, WaitUntilSettled]"
  using activate_order [of empty_state example_env]
  by (simp add: empty_state_def cache_names_def)

subsection \<open>C4: what the sweep leaves\<close>

text \<open>
  C4 as stated fails on the storage that the worker's own install leaves.
  Install opens the static cache of the current version and no runtime cache,
  and the sweep creates none: after the install of the current version over the
  caches of an older one, and its activation, the static cache of the current
  version is the only cache, and the current runtime cache does not exist.
\<close>

theorem sweep_creates_no_runtime_counterexample:
  "fst (install example_env all_ok_net old_deployment) = Fulfilled Undefined
   \<and> cache_names (activate example_env (snd (install example_env all_ok_net old_deployment)))
       = [STATIC_CACHE example_env]
   \<and> RUNTIME_CACHE example_env
       \<notin> set (cache_names (activate example_env
                 (snd (install example_env all_ok_net old_deployment))))"
proof -
  have "fst (install example_env all_ok_net old_deployment) = Fulfilled Undefined"
    by (simp add: install_result PRECACHE_URLS_def all_ok_net_def ok_def put_refuses_def
        http_url_def own_url_def example_env_def)
  moreover have "cache_names (activate example_env
      (snd (install example_env all_ok_net old_deployment))) = [STATIC_CACHE example_env]"
    by (simp add: cache_names_activate cache_names_install)
       (simp add: cache_names_def old_deployment_def old_env_def example_env_def
         STATIC_CACHE_def RUNTIME_CACHE_def VERSION_2025_def nb_hyphen_def)
  ultimately show ?thesis
    by (simp add: STATIC_neq_RUNTIME [symmetric])
qed

text \<open>
  C4, amended. Whatever caches exist when activation starts, after the sweep under
  the version tag of \<open>env\<close> the caches that remain are those of the starting ones
  named as the current static or runtime cache: the set of remaining names is
  the starting set cut down to these two names, and it is exactly these two
  names when both caches existed at the start. One delete is issued for every
  other starting name and for no other. A second activation under the same
  version tag issues no delete and leaves the storage as it is.
\<close>

theorem activate_sweeps_generations:
  "set (cache_names (activate env s))
     = set (cache_names s) \<inter> {STATIC_CACHE env, RUNTIME_CACHE env}
   \<and> (STATIC_CACHE env \<in> set (cache_names s) \<and> RUNTIME_CACHE env \<in> set (cache_names s)
      \<longrightarrow> set (cache_names (activate env s)) = {STATIC_CACHE env, RUNTIME_CACHE env})
   \<and> filter is_delete (effects_since s (activate env s))
     = map CachesDelete
         (filter (\<lambda>n. n \<noteq> STATIC_CACHE env \<and> n \<noteq> RUNTIME_CACHE env) (cache_names s))
   \<and> filter is_delete (effects_since (activate env s) (activate env (activate env s))) = []
   \<and> storage (activate env (activate env s)) = storage (activate env s)"
proof -
  have names: "set (cache_names (activate env s))
      = set (cache_names s) \<inter> {STATIC_CACHE env, RUNTIME_CACHE env}"
    by (auto simp: cache_names_activate)
  have dels: "filter is_delete (effects_since s (activate env s))
      = map CachesDelete (stale env (cache_names s))"
    by (simp add: effects_since_activate filter_map comp_def)
  have again: "filter is_delete (effects_since (activate env s) (activate env (activate env s))) = []"
    by (simp add: effects_since_activate stale_after_activate)
  have same: "storage (activate env (activate env s)) = storage (activate env s)"
    by (simp add: activate_storage split_def)
  from names dels again same show ?thesis
    by (auto simp: stale_def)
qed

text \<open>
  C4 after an upgrade with both current caches in place: the two caches of the
  old version are deleted, and exactly the two of the current version remain.
\<close>

theorem activate_sweeps_generations_witness:
  "STATIC_CACHE example_env \<in> set (cache_names upgraded)
   \<and> RUNTIME_CACHE example_env \<in> set (cache_names upgraded)
   \<and> set (cache_names (activate example_env upgraded)) =
       {STATIC_CACHE example_env, RUNTIME_CACHE example_env}
   \<and> filter is_delete (effects_since upgraded (activate example_env upgraded)) =
       [CachesDelete (STATIC_CACHE old_env), CachesDelete (RUNTIME_CACHE old_env)]"
proof -
  have both: "STATIC_CACHE example_env \<in> set (cache_names upgraded)"
    "RUNTIME_CACHE example_env \<in> set (cache_names upgraded)"
    by (simp_all add: upgraded_def cache_names_def)
  from both activate_sweeps_generations [of example_env upgraded]
  show ?thesis
    by (simp add: example_defs eval_defs)
qed

subsection \<open>C5: stale-while-revalidate\<close>

text \<open>
  C5. When the runtime cache holds a copy of the request, staleWhileRevalidate
  answers with that copy whatever the network does, even when the fetch never
  settles. When it holds none, the answer is that of the fetch: the response, or
  \<^verbatim>\<open>undefined\<close> after a network error, and none as long as the fetch hangs. Each
  call issues exactly one fetch, and no call ends in a rejection.
\<close>

theorem staleWhileRevalidate_serves_stale:
  "(map_of (cache_entries (RUNTIME_CACHE env) s) (url request) = Some c
      \<longrightarrow> fst (staleWhileRevalidate env net request s) = Fulfilled (Resp c))
   \<and> (map_of (cache_entries (RUNTIME_CACHE env) s) (url request) = None
      \<longrightarrow> fst (staleWhileRevalidate env net request s) =
            (case net (url request) of
               NetResponse r \<Rightarrow> Fulfilled (Resp r)
             | NetError \<Rightarrow> Fulfilled Undefined
             | NetHang \<Rightarrow> Pending))
   \<and> filter is_fetch (effects_since s (snd (staleWhileRevalidate env net request s)))
       = [Fetch (url request)]
   \<and> fst (staleWhileRevalidate env net request s) \<noteq> Rejected"
proof -
  have "filter is_fetch (effects_since s (snd (staleWhileRevalidate env net request s)))
      = [Fetch (url request)]"
    by (simp add: effects_since_def swr_log split: fetch_outcome.splits)
  then show ?thesis
    by (simp add: swr_result_hit swr_result_miss swr_not_rejected)
qed

text \<open>
  C5 with a warm cache and a network that never answers, and with a cold cache
  and a network that answers, or fails.
\<close>

theorem staleWhileRevalidate_serves_stale_witness:
  "map_of (cache_entries (RUNTIME_CACHE example_env) warm) (url api_request) = Some stale_copy
   \<and> fst (staleWhileRevalidate example_env (\<lambda>k. NetHang) api_request warm)
       = Fulfilled (Resp stale_copy)
   \<and> map_of (cache_entries (RUNTIME_CACHE example_env) empty_state) (url api_request) = None
   \<and> fst (staleWhileRevalidate example_env not_found_net api_request empty_state)
       = Fulfilled (Resp not_found)
   \<and> fst (staleWhileRevalidate example_env offline_net api_request empty_state)
       = Fulfilled Undefined"
proof -
  have hit: "map_of (cache_entries (RUNTIME_CACHE example_env) warm) (url api_request)
      = Some stale_copy"
    by (simp add: example_defs eval_defs)
  have miss: "map_of (cache_entries (RUNTIME_CACHE example_env) empty_state) (url api_request)
      = None"
    by (simp add: example_defs eval_defs)
  from hit miss
    staleWhileRevalidate_serves_stale [of example_env warm api_request stale_copy "\<lambda>k. NetHang"]
    staleWhileRevalidate_serves_stale [of example_env empty_state api_request stale_copy not_found_net]
    staleWhileRevalidate_serves_stale [of example_env empty_state api_request stale_copy offline_net]
  show ?thesis
    by (simp add: not_found_net_def offline_net_def)
qed

subsection \<open>C6: the routing of a GET request\<close>

text \<open>
  C6. For every GET request the fetch listener answers with the strategy of the
  request's class, the class being decided in the order of the specification:
  STATIC first, then NAVIGATION, then DYNAMIC.
\<close>

theorem fetch_listener_classifies:
  "req_method request = ''GET'' \<Longrightarrow>
     fetch_listener env net request s =
       respondWith (strategy_spec (classify_spec env request) env net request s)"
  by (auto simp: fetch_listener_def classify_spec_def)

text \<open>
  C6 at a navigation to the precached \<^verbatim>\<open>/index.html\<close>, which is STATIC and served
  by cacheFirst, at a navigation to \<^verbatim>\<open>/about\<close>, and at a GET to another origin.
\<close>

theorem fetch_listener_classifies_witness:
  "req_method index_navigation = ''GET'' \<and> mode index_navigation = ''navigate''
   \<and> classify_spec example_env index_navigation = STATIC
   \<and> fetch_listener example_env offline_net index_navigation empty_state =
       respondWith (cacheFirst example_env offline_net index_navigation empty_state)
   \<and> classify_spec example_env about_navigation = NAVIGATION
   \<and> fetch_listener example_env offline_net about_navigation empty_state =
       respondWith (networkFirst example_env offline_net about_navigation empty_state)
   \<and> classify_spec example_env api_request = DYNAMIC
   \<and> fetch_listener example_env offline_net api_request empty_state =
       respondWith (staleWhileRevalidate example_env offline_net api_request empty_state)"
proof -
  have c: "classify_spec example_env index_navigation = STATIC"
    "classify_spec example_env about_navigation = NAVIGATION"
    "classify_spec example_env api_request = DYNAMIC"
    by (simp_all add: classify_spec_def example_defs own_url_def PRECACHE_URLS_def)
  have m: "req_method index_navigation = ''GET''" "req_method about_navigation = ''GET''"
    "req_method api_request = ''GET''" "mode index_navigation = ''navigate''"
    by (simp_all add: example_defs)
  from c m
    fetch_listener_classifies [of index_navigation example_env offline_net empty_state]
    fetch_listener_classifies [of about_navigation example_env offline_net empty_state]
    fetch_listener_classifies [of api_request example_env offline_net empty_state]
  show ?thesis by simp
qed

subsection \<open>C7: requests that are not GET\<close>

text \<open>
  C7. For a request whose method is not GET the fetch listener returns without
  \<^verbatim>\<open>respondWith\<close> and without any effect: the cache storage is as it was, and
  nothing has been opened, read, stored or fetched.
\<close>

theorem non_GET_passes_through:
  "req_method request \<noteq> ''GET'' \<Longrightarrow> fetch_listener env net request s = (None, s)"
  by (simp add: fetch_listener_def)

text \<open>C7 at the POST of the form module.\<close>

theorem non_GET_passes_through_witness:
  "req_method form_post \<noteq> ''GET''
   \<and> fetch_listener example_env not_found_net form_post warm = (None, warm)"
proof -
  have m: "req_method form_post \<noteq> ''GET''"
    by (simp add: form_post_def)
  from m non_GET_passes_through [OF m, of example_env not_found_net warm]
  show ?thesis by simp
qed

subsection \<open>C8: the static cache is never written by a strategy\<close>

text \<open>
  C8. No strategy changes the entries of the static cache. cacheFirst stores
  nothing, on a hit or on a miss; networkFirst and staleWhileRevalidate store at
  most the fetched response, in the runtime cache. So the fetch listener leaves
  the entries of the static cache as they were, for every request.
\<close>

theorem strategies_never_write_static:
  "cache_entries (STATIC_CACHE env) (snd (cacheFirst env net request s))
     = cache_entries (STATIC_CACHE env) s
   \<and> filter is_put (effects_since s (snd (cacheFirst env net request s))) = []
   \<and> cache_entries (STATIC_CACHE env) (snd (networkFirst env net request s))
     = cache_entries (STATIC_CACHE env) s
   \<and> filter is_put (effects_since s (snd (networkFirst env net request s)))
     = (case net (url request) of
          NetResponse r \<Rightarrow> [CachePut (RUNTIME_CACHE env) (url request) r]
        | NetError \<Rightarrow> []
        | NetHang \<Rightarrow> [])
   \<and> cache_entries (STATIC_CACHE env) (snd (staleWhileRevalidate env net request s))
     = cache_entries (STATIC_CACHE env) s
   \<and> filter is_put (effects_since s (snd (staleWhileRevalidate env net request s)))
     = (case net (url request) of
          NetResponse r \<Rightarrow> [CachePut (RUNTIME_CACHE env) (url request) r]
        | NetError \<Rightarrow> []
        | NetHang \<Rightarrow> [])
   \<and> cache_entries (STATIC_CACHE env) (snd (fetch_listener env net request s))
     = cache_entries (STATIC_CACHE env) s"
proof -
  have cf: "filter is_put (effects_since s (snd (cacheFirst env net request s))) = []"
    by (simp add: effects_since_def cacheFirst_log split: option.splits)
  have nf: "filter is_put (effects_since s (snd (networkFirst env net request s)))
     = (case net (url request) of
          NetResponse r \<Rightarrow> [CachePut (RUNTIME_CACHE env) (url request) r]
        | NetError \<Rightarrow> []
        | NetHang \<Rightarrow> [])"
    by (simp add: effects_since_def networkFirst_log split: fetch_outcome.splits)
  have sw: "filter is_put (effects_since s (snd (staleWhileRevalidate env net request s)))
     = (case net (url request) of
          NetResponse r \<Rightarrow> [CachePut (RUNTIME_CACHE env) (url request) r]
        | NetError \<Rightarrow> []
        | NetHang \<Rightarrow> [])"
    by (simp add: effects_since_def swr_log split: fetch_outcome.splits)
  have ne: "cache_entries (STATIC_CACHE env) (snd (networkFirst env net request s))
     = cache_entries (STATIC_CACHE env) s"
    by (simp add: networkFirst_entries STATIC_neq_RUNTIME split: fetch_outcome.splits)
  have se: "cache_entries (STATIC_CACHE env) (snd (staleWhileRevalidate env net request s))
     = cache_entries (STATIC_CACHE env) s"
    by (simp add: swr_entries STATIC_neq_RUNTIME split: fetch_outcome.splits)
  from cf nf sw ne se show ?thesis
    by (simp add: cacheFirst_entries fetch_listener_entries_static)
qed

text \<open>
  C8 at a navigation answered with a 404: the static cache keeps its one entry,
  and the one store goes to the runtime cache.
\<close>

theorem strategies_never_write_static_witness:
  "cache_entries (STATIC_CACHE example_env)
     (snd (fetch_listener example_env not_found_net about_navigation offline_ready))
     = [(own_url example_env ''/offline.html'', offline_page)]
   \<and> filter is_put
       (effects_since offline_ready
         (snd (networkFirst example_env not_found_net about_navigation offline_ready)))
     = [CachePut (RUNTIME_CACHE example_env) (url about_navigation) not_found]"
  using strategies_never_write_static [of example_env not_found_net about_navigation offline_ready]
  by (simp add: not_found_net_def offline_ready_def cache_entries_def)

subsection \<open>C9: install fails as a whole\<close>

text \<open>
  C9. When the fetch of one path of the manifest fails, the promise that install
  gives to \<^verbatim>\<open>event.waitUntil\<close> is rejected and no cache has gained an entry. When
  that promise is fulfilled, every path of the manifest has been fetched and is
  stored in the static cache. Install starts by asking to skip the waiting
  phase, then opens the static cache and calls \<^verbatim>\<open>waitUntil\<close>; and the promise, when
  it settles, settles after everything else.
\<close>

theorem install_fails_fast:
  "((\<exists>p\<in>set PRECACHE_URLS. fetch_failed (net (own_url env p)))
      \<longrightarrow> fst (install env net s) = Rejected
          \<and> (\<forall>n. cache_entries n (snd (install env net s)) = cache_entries n s))
   \<and> (fst (install env net s) = Fulfilled Undefined
      \<longrightarrow> (\<forall>p\<in>set PRECACHE_URLS. \<exists>r. net (own_url env p) = NetResponse r \<and> ok r
             \<and> map_of (cache_entries (STATIC_CACHE env) (snd (install env net s))) (own_url env p)
                 = Some r))
   \<and> take 3 (effects_since s (snd (install env net s)))
       = [SkipWaiting, CachesOpen (STATIC_CACHE env), WaitUntil]
   \<and> (fst (install env net s) \<noteq> Pending
      \<longrightarrow> last (effects_since s (snd (install env net s))) = WaitUntilSettled)"
proof -
  have fail: "fst (install env net s) = Rejected"
    if "\<exists>p\<in>set PRECACHE_URLS. fetch_failed (net (own_url env p))"
    using that by (auto simp: install_result list_ex_iff intro: fetch_failed_addAll_rejects)
  then show ?thesis
    using install_rejected_entries install_fulfilled_entries install_log_start install_log_end
    by blast
qed

text \<open>
  C9 on a network where only the favicon cannot be fetched, and on one where
  every path can.
\<close>

theorem install_fails_fast_witness:
  "(\<exists>p\<in>set PRECACHE_URLS. fetch_failed (no_favicon_net (own_url example_env p)))
   \<and> fst (install example_env no_favicon_net empty_state) = Rejected
   \<and> cache_entries (STATIC_CACHE example_env) (snd (install example_env no_favicon_net empty_state))
       = []
   \<and> last (effects_since empty_state (snd (install example_env no_favicon_net empty_state)))
       = WaitUntilSettled
   \<and> fst (install example_env (\<lambda>k. NetResponse offline_page) empty_state) = Fulfilled Undefined
   \<and> map_of (cache_entries (STATIC_CACHE example_env)
               (snd (install example_env (\<lambda>k. NetResponse offline_page) empty_state)))
         (own_url example_env ''/index.html'') = Some offline_page"
proof -
  have f: "\<exists>p\<in>set PRECACHE_URLS. fetch_failed (no_favicon_net (own_url example_env p))"
    by (simp add: PRECACHE_URLS_def no_favicon_net_def own_url_def)
  have g: "fst (install example_env (\<lambda>k. NetResponse offline_page) empty_state) = Fulfilled Undefined"
    by (simp add: install_result PRECACHE_URLS_def offline_page_def ok_def put_refuses_def
        http_url_def own_url_def example_env_def)
  have e: "cache_entries (STATIC_CACHE example_env) empty_state = []"
    by (simp add: cache_entries_def empty_state_def)
  have i: "''/index.html'' \<in> set PRECACHE_URLS"
    by (simp add: PRECACHE_URLS_def)
  from f g e i
    install_fails_fast [of no_favicon_net example_env empty_state]
    install_fails_fast [of "\<lambda>k. NetResponse offline_page" example_env empty_state]
  show ?thesis by auto
qed

subsection \<open>C10: which responses are stored\<close>

text \<open>
  C10 as stated fails at a response of status 206, the answer to a range request:
  the strategies hand it to \<^verbatim>\<open>cache.put\<close>, which refuses it. The copy that the
  runtime cache held is not replaced, a runtime cache without a copy gets none,
  and the next networkFirst without network has nothing to answer with.
\<close>

theorem partial_content_not_stored_counterexample:
  "partial_net (url api_request) = NetResponse partial_content
   \<and> map_of (cache_entries (RUNTIME_CACHE example_env)
               (snd (staleWhileRevalidate example_env partial_net api_request warm)))
         (url api_request) = Some stale_copy
   \<and> map_of (cache_entries (RUNTIME_CACHE example_env)
               (snd (networkFirst example_env partial_net about_navigation offline_ready)))
         (url about_navigation) = None
   \<and> fst (networkFirst example_env offline_net about_navigation
            (snd (networkFirst example_env partial_net about_navigation offline_ready)))
       = Fulfilled Undefined"
proof -
  have r: "\<not> put_accepts k partial_content" for k
    by (simp add: put_accepts_def put_refuses_def partial_content_def)
  have nf: "cache_entries n
      (snd (networkFirst example_env partial_net about_navigation offline_ready))
      = cache_entries n offline_ready" for n
    by (simp add: networkFirst_entries partial_net_def r)
  have sw: "cache_entries n
      (snd (staleWhileRevalidate example_env partial_net api_request warm))
      = cache_entries n warm" for n
    by (simp add: swr_entries partial_net_def r)
  have base:
    "map_of (cache_entries (RUNTIME_CACHE example_env) warm) (url api_request) = Some stale_copy"
    "map_of (cache_entries (RUNTIME_CACHE example_env) offline_ready) (url about_navigation) = None"
    by (simp_all add: example_defs eval_defs)
  show ?thesis
    by (simp add: nf sw base networkFirst_result offline_net_def partial_net_def)
qed

text \<open>
  C10, amended. Whenever the fetch of a GET request answers with a response,
  networkFirst and staleWhileRevalidate hand it to \<^verbatim>\<open>cache.put\<close> for the runtime cache without
  looking at its status. When \<^verbatim>\<open>put\<close> accepts it (a URL of http or https, a status
  other than 206, no \<^verbatim>\<open>Vary: *\<close>), it is stored under the request, whatever its
  status: the next networkFirst for that request answers with it when the
  network fails, and the next staleWhileRevalidate answers with it whatever the
  network does. When \<^verbatim>\<open>put\<close> refuses it, every cache keeps the entries it
  had.
\<close>

theorem accepted_responses_are_cached:
  "req_method request = ''GET'' \<Longrightarrow> net (url request) = NetResponse r \<Longrightarrow>
     (put_accepts (url request) r \<longrightarrow>
        map_of (cache_entries (RUNTIME_CACHE env) (snd (networkFirst env net request s)))
          (url request) = Some r
        \<and> fst (networkFirst env (\<lambda>k. NetError) request (snd (networkFirst env net request s)))
          = Fulfilled (Resp r)
        \<and> map_of (cache_entries (RUNTIME_CACHE env) (snd (staleWhileRevalidate env net request s)))
            (url request) = Some r
        \<and> fst (staleWhileRevalidate env net' request
                 (snd (staleWhileRevalidate env net request s)))
          = Fulfilled (Resp r))
     \<and> (\<not> put_accepts (url request) r \<longrightarrow>
        cache_entries n (snd (networkFirst env net request s)) = cache_entries n s
        \<and> cache_entries n (snd (staleWhileRevalidate env net request s)) = cache_entries n s)
     \<and> filter is_put (effects_since s (snd (networkFirst env net request s)))
         = [CachePut (RUNTIME_CACHE env) (url request) r]
     \<and> filter is_put (effects_since s (snd (staleWhileRevalidate env net request s)))
         = [CachePut (RUNTIME_CACHE env) (url request) r]"
proof -
  assume n: "net (url request) = NetResponse r"
  have stored: "map_of (cache_entries (RUNTIME_CACHE env) (snd (networkFirst env net request s)))
          (url request) = Some r"
      "map_of (cache_entries (RUNTIME_CACHE env) (snd (staleWhileRevalidate env net request s)))
          (url request) = Some r"
    if "put_accepts (url request) r"
    using n that
    by (simp_all del: map_of_append add: networkFirst_entries swr_entries map_of_put_entry)
  have kept: "cache_entries n (snd (networkFirst env net request s)) = cache_entries n s"
      "cache_entries n (snd (staleWhileRevalidate env net request s)) = cache_entries n s"
    if "\<not> put_accepts (url request) r"
    using n that by (simp_all add: networkFirst_entries swr_entries)
  have puts: "filter is_put (effects_since s (snd (networkFirst env net request s)))
         = [CachePut (RUNTIME_CACHE env) (url request) r]"
      "filter is_put (effects_since s (snd (staleWhileRevalidate env net request s)))
         = [CachePut (RUNTIME_CACHE env) (url request) r]"
    using n by (simp_all add: effects_since_def networkFirst_log swr_log)
  from stored kept puts show ?thesis
    by (simp add: networkFirst_result swr_result_hit)
qed

text \<open>
  C10 at a 404 that replaces the copy of a dynamic request, at a 500 answered to
  a navigation, and at a 206, which leaves the copy in place.
\<close>

theorem accepted_responses_are_cached_witness:
  "req_method api_request = ''GET'' \<and> req_method about_navigation = ''GET''
   \<and> not_found_net (url api_request) = NetResponse not_found \<and> status not_found = 404
   \<and> put_accepts (url api_request) not_found
   \<and> map_of (cache_entries (RUNTIME_CACHE example_env)
               (snd (staleWhileRevalidate example_env not_found_net api_request warm)))
         (url api_request) = Some not_found
   \<and> fst (staleWhileRevalidate example_env offline_net api_request
            (snd (staleWhileRevalidate example_env not_found_net api_request warm)))
       = Fulfilled (Resp not_found)
   \<and> fst (networkFirst example_env (\<lambda>k. NetError) about_navigation
            (snd (networkFirst example_env
                   (\<lambda>k. NetResponse \<lparr>status = 500, vary = [], content = []\<rparr>)
                   about_navigation offline_ready)))
       = Fulfilled (Resp \<lparr>status = 500, vary = [], content = []\<rparr>)
   \<and> \<not> put_accepts (url api_request) partial_content
   \<and> cache_entries (RUNTIME_CACHE example_env)
        (snd (staleWhileRevalidate example_env partial_net api_request warm))
       = [(api_url, stale_copy)]"
proof -
  have n: "not_found_net (url api_request) = NetResponse not_found"
    "partial_net (url api_request) = NetResponse partial_content"
    by (simp_all add: not_found_net_def partial_net_def)
  have a: "put_accepts (url api_request) not_found"
    "put_accepts (url about_navigation) \<lparr>status = 500, vary = [], content = []\<rparr>"
    "\<not> put_accepts (url api_request) partial_content"
    by (simp_all add: example_defs eval_defs)
  have w: "cache_entries (RUNTIME_CACHE example_env) warm = [(api_url, stale_copy)]"
    by (simp add: example_defs eval_defs)
  have m: "req_method api_request = ''GET''" "req_method about_navigation = ''GET''"
    by (simp_all add: api_request_def about_navigation_def)
  from n a w m
    accepted_responses_are_cached [where net = not_found_net and request = api_request
      and r = not_found and env = example_env and s = warm and net' = offline_net]
    accepted_responses_are_cached [where net = "\<lambda>k. NetResponse \<lparr>status = 500, vary = [], content = []\<rparr>"
      and request = about_navigation and r = "\<lparr>status = 500, vary = [], content = []\<rparr>"
      and env = example_env and s = offline_ready and net' = offline_net]
    accepted_responses_are_cached [where net = partial_net and request = api_request
      and r = partial_content and env = example_env and s = warm
      and n = "RUNTIME_CACHE example_env"]
  show ?thesis by (simp add: not_found_def)
qed

end
